theory Spec2Isabelle
  imports Main "HOL-Library.Sublist"
begin

section \<open>serve\_cors.py: a static file server that decorates every response with CORS headers\<close>

text \<open>
  The program is a subclass \<open>CORSRequestHandler\<close> of Python's
  \<open>http.server.SimpleHTTPRequestHandler\<close> that overrides \<open>end_headers\<close> and
  adds \<open>do_OPTIONS\<close>, and a \<open>main\<close> that parses two options and runs a
  \<open>socketserver.TCPServer\<close>. The methods the subclass calls and inherits are those of
  CPython 3.11's \<open>http/server.py\<close>, \<open>socketserver.py\<close> and \<open>posixpath.py\<close>;
  they are embedded here next to the code of the repository, each under the name it has
  in Python. Strings are byte strings (\<open>char list\<close>), which is what the handler
  writes after encoding with latin-1.
\<close>

subsection \<open>Strings\<close>

definition CRLF :: string where
  "CRLF = [CHR 0x0D, CHR 0x0A]"

definition digit_char :: "nat \<Rightarrow> char" where
  "digit_char d = char_of (48 + d)"

text \<open>\<open>str(n)\<close> for a Python int: decimal digits, a minus sign for a negative number.\<close>

function str_nat :: "nat \<Rightarrow> string" where
  "str_nat n = (if n < 10 then [digit_char n] else str_nat (n div 10) @ [digit_char (n mod 10)])"
  by pat_completeness auto
termination
  by (relation "measure id") auto

declare str_nat.simps [simp del]

definition str_int :: "int \<Rightarrow> string" where
  "str_int i = (if i < 0 then CHR ''-'' # str_nat (nat (- i)) else str_nat (nat i))"

text \<open>\<open>str.lower()\<close> on the code points 0 to 127; no other latin-1 character lowers to an
  ASCII letter, so comparisons with ASCII words behave as in Python.\<close>

definition lower_char :: "char \<Rightarrow> char" where
  "lower_char c = (let n = (of_char c :: nat) in if 65 \<le> n \<and> n \<le> 90 then char_of (n + 32) else c)"

definition lower :: "string \<Rightarrow> string" where
  "lower s = map lower_char s"

definition startswith :: "string \<Rightarrow> string \<Rightarrow> bool" where
  "startswith s t = (take (length t) s = t)"

definition endswith :: "string \<Rightarrow> string \<Rightarrow> bool" where
  "endswith s t = (length t \<le> length s \<and> drop (length s - length t) s = t)"

subsection \<open>The request handler object\<close>

text \<open>
  Exceptions that the modelled code can raise. \<open>AttributeError\<close> is what
  \<open>BaseHTTPRequestHandler.end_headers\<close> raises when \<open>_headers_buffer\<close> was never
  created; \<open>ValueError\<close> is what \<open>open\<close> raises for a path with a NUL byte.
\<close>

datatype py_error = AttributeError | ValueError

datatype fs_call = Isdir string | Isfile string | Open string | Listdir string

text \<open>
  The fields of \<open>self\<close> that the handler reads and writes after
  \<open>parse_request\<close> has succeeded. \<open>headers_buffer\<close> is \<open>_headers_buffer\<close>
  (\<open>None\<close> while the attribute does not exist), \<open>wfile\<close> the bytes written to
  the client so far. \<open>fs_trace\<close> is not a Python attribute: it records, in order, the
  file-system calls the handler has made.
\<close>

record handler =
  command :: string
  path :: string
  request_version :: string
  headers :: "(string \<times> string) list"
  directory :: string
  headers_buffer :: "string list option"
  wfile :: string
  close_connection :: bool
  fs_trace :: "fs_call list"

record file_obj =
  content :: string
  st_size :: nat
  last_modified :: string

text \<open>
  What the handler obtains from outside the program: the clock, the interpreter's version,
  the file system, and library functions whose results are copied into the response
  without being inspected. Every theorem below holds for all values of these.
\<close>

record env =
  version_string :: string
  date_time_string :: string
  responses :: "int \<Rightarrow> (string \<times> string) option"
  error_content :: "int \<Rightarrow> string \<Rightarrow> string \<Rightarrow> string"
  py_repr :: "string \<Rightarrow> string"
  unquote :: "string \<Rightarrow> string"
  urlsplit_path :: "string \<Rightarrow> string"
  redirect_url :: "string \<Rightarrow> string"
  guess_type :: "string \<Rightarrow> string"
  os_isdir :: "string \<Rightarrow> bool"
  os_isfile :: "string \<Rightarrow> bool"
  os_open :: "string \<Rightarrow> file_obj option"
  listing :: "string \<Rightarrow> string \<Rightarrow> string option"
  fs_encoding :: string
  not_modified :: "(string \<times> string) list \<Rightarrow> file_obj \<Rightarrow> bool"

definition protocol_version :: string where
  "protocol_version = ''HTTP/1.0''"

definition pending :: "handler \<Rightarrow> string list" where
  "pending h = (case headers_buffer h of None \<Rightarrow> [] | Some b \<Rightarrow> b)"

subsection \<open>\<open>BaseHTTPRequestHandler\<close>: building the response head\<close>

text \<open>
  \<^verbatim>\<open>
  def send_response_only(self, code, message=None):
      if self.request_version != 'HTTP/0.9':
          if message is None:
              if code in self.responses: message = self.responses[code][0]
              else: message = ''
          if not hasattr(self, '_headers_buffer'): self._headers_buffer = []
          self._headers_buffer.append(("%s %d %s\r\n" %
                  (self.protocol_version, code, message)).encode('latin-1', 'strict'))
  \<close>
\<close>

definition send_response_only :: "env \<Rightarrow> handler \<Rightarrow> int \<Rightarrow> string option \<Rightarrow> handler" where
  "send_response_only e h code message =
     (if request_version h \<noteq> ''HTTP/0.9'' then
        let msg = (case message of
                     Some m \<Rightarrow> m
                   | None \<Rightarrow> (case responses e code of Some (short, long) \<Rightarrow> short | None \<Rightarrow> ''''))
        in h\<lparr>headers_buffer :=
               Some (pending h @ [protocol_version @ '' '' @ str_int code @ '' '' @ msg @ CRLF])\<rparr>
      else h)"

text \<open>
  \<^verbatim>\<open>
  def send_header(self, keyword, value):
      if self.request_version != 'HTTP/0.9':
          if not hasattr(self, '_headers_buffer'): self._headers_buffer = []
          self._headers_buffer.append(
              ("%s: %s\r\n" % (keyword, value)).encode('latin-1', 'strict'))
      if keyword.lower() == 'connection':
          if value.lower() == 'close': self.close_connection = True
          elif value.lower() == 'keep-alive': self.close_connection = False
  \<close>
\<close>

definition header_line :: "string \<Rightarrow> string \<Rightarrow> string" where
  "header_line keyword v = keyword @ '': '' @ v @ CRLF"

definition send_header :: "handler \<Rightarrow> string \<Rightarrow> string \<Rightarrow> handler" where
  "send_header h keyword v =
     (let h1 = (if request_version h \<noteq> ''HTTP/0.9''
                then h\<lparr>headers_buffer := Some (pending h @ [header_line keyword v])\<rparr>
                else h)
      in if lower keyword = ''connection'' then
           (if lower v = ''close'' then h1\<lparr>close_connection := True\<rparr>
            else if lower v = ''keep-alive'' then h1\<lparr>close_connection := False\<rparr>
            else h1)
         else h1)"

text \<open>
  \<^verbatim>\<open>
  def send_response(self, code, message=None):
      self.log_request(code)
      self.send_response_only(code, message)
      self.send_header('Server', self.version_string())
      self.send_header('Date', self.date_time_string())
  \<close>
  \<open>log_request\<close> writes a line to the process's standard error stream and touches
  nothing of the handler; the lines logged while serving are part of the process model
  below.
\<close>

definition send_response :: "env \<Rightarrow> handler \<Rightarrow> int \<Rightarrow> string option \<Rightarrow> handler" where
  "send_response e h code message =
     send_header
       (send_header (send_response_only e h code message) ''Server'' (version_string e))
       ''Date'' (date_time_string e)"

text \<open>
  \<^verbatim>\<open>
  def flush_headers(self):
      if hasattr(self, '_headers_buffer'):
          self.wfile.write(b"".join(self._headers_buffer))
          self._headers_buffer = []

  def end_headers(self):            # BaseHTTPRequestHandler
      if self.request_version != 'HTTP/0.9':
          self._headers_buffer.append(b"\r\n")
          self.flush_headers()
  \<close>
\<close>

definition flush_headers :: "handler \<Rightarrow> handler" where
  "flush_headers h =
     (case headers_buffer h of
        None \<Rightarrow> h
      | Some b \<Rightarrow> h\<lparr>wfile := wfile h @ concat b, headers_buffer := Some []\<rparr>)"

definition base_end_headers :: "handler \<Rightarrow> py_error + handler" where
  "base_end_headers h =
     (if request_version h \<noteq> ''HTTP/0.9'' then
        (case headers_buffer h of
           None \<Rightarrow> Inl AttributeError
         | Some b \<Rightarrow> Inr (flush_headers (h\<lparr>headers_buffer := Some (b @ [CRLF])\<rparr>)))
      else Inr h)"

subsection \<open>\<open>CORSRequestHandler\<close>\<close>

text \<open>
  \<^verbatim>\<open>
  def end_headers(self) -> None:
      self.send_header("Access-Control-Allow-Origin", "*")
      self.send_header("Access-Control-Allow-Methods", "GET, OPTIONS")
      self.send_header("Access-Control-Allow-Headers", "*")
      self.send_header("Cache-Control", "no-store, no-cache, must-revalidate, max-age=0")
      super().end_headers()
  \<close>
\<close>

definition end_headers :: "handler \<Rightarrow> py_error + handler" where
  "end_headers h =
     (let h1 = send_header h ''Access-Control-Allow-Origin'' ''*'';
          h2 = send_header h1 ''Access-Control-Allow-Methods'' ''GET, OPTIONS'';
          h3 = send_header h2 ''Access-Control-Allow-Headers'' ''*'';
          h4 = send_header h3 ''Cache-Control'' ''no-store, no-cache, must-revalidate, max-age=0''
      in base_end_headers h4)"

text \<open>
  \<^verbatim>\<open>
  def do_OPTIONS(self) -> None:
      self.send_response(200, "ok")
      self.end_headers()
  \<close>
\<close>

definition do_OPTIONS :: "env \<Rightarrow> handler \<Rightarrow> py_error + handler" where
  "do_OPTIONS e h = end_headers (send_response e h 200 (Some ''ok''))"

text \<open>The four header lines of the specification, as they appear on the wire.\<close>

definition cors_lines :: "string list" where
  "cors_lines =
     [header_line ''Access-Control-Allow-Origin'' ''*'',
      header_line ''Access-Control-Allow-Methods'' ''GET, OPTIONS'',
      header_line ''Access-Control-Allow-Headers'' ''*'',
      header_line ''Cache-Control'' ''no-store, no-cache, must-revalidate, max-age=0'']"

subsection \<open>\<open>posixpath\<close>\<close>

text \<open>\<open>s.split(c)\<close> for a one-character separator.\<close>

fun split_on :: "char \<Rightarrow> string \<Rightarrow> string list" where
  "split_on c [] = [[]]"
| "split_on c (x # xs) =
     (if x = c then [] # split_on c xs
      else (case split_on c xs of w # ws \<Rightarrow> (x # w) # ws | [] \<Rightarrow> [[x]]))"

text \<open>\<open>sep.join(words)\<close>.\<close>

fun join_with :: "string \<Rightarrow> string list \<Rightarrow> string" where
  "join_with sep [] = []"
| "join_with sep [w] = w"
| "join_with sep (w # v # ws) = w @ sep @ join_with sep (v # ws)"

text \<open>\<open>str.isspace\<close> on the code points 0 to 255, and \<open>str.rstrip()\<close>.\<close>

definition is_space :: "char \<Rightarrow> bool" where
  "is_space c = (let n = (of_char c :: nat) in
     (9 \<le> n \<and> n \<le> 13) \<or> (28 \<le> n \<and> n \<le> 32) \<or> n = 133 \<or> n = 160)"

definition rstrip :: "string \<Rightarrow> string" where
  "rstrip s = rev (dropWhile is_space (rev s))"

text \<open>
  \<^verbatim>\<open>
  def join(a, *p):                       # posixpath, one component p = (b,)
      path = a
      for b in p:
          if b.startswith(sep): path = b
          elif not path or path.endswith(sep): path += b
          else: path += sep + b
      return path
  \<close>
\<close>

definition os_path_join :: "string \<Rightarrow> string \<Rightarrow> string" where
  "os_path_join a b =
     (if startswith b ''/'' then b
      else if a = [] \<or> endswith a ''/'' then a @ b
      else a @ ''/'' @ b)"

text \<open>
  \<^verbatim>\<open>
  def dirname(p):
      i = p.rfind(sep) + 1
      head = p[:i]
      if head and head != sep*len(head): head = head.rstrip(sep)
      return head
  \<close>
\<close>

definition os_path_dirname :: "string \<Rightarrow> string" where
  "os_path_dirname p =
     (let i = length p - length (takeWhile (\<lambda>c. c \<noteq> CHR ''/'') (rev p));
          head = take i p
      in if head \<noteq> [] \<and> head \<noteq> replicate (length head) (CHR ''/'')
         then rev (dropWhile (\<lambda>c. c = CHR ''/'') (rev head))
         else head)"

text \<open>
  \<^verbatim>\<open>
  def normpath(path):
      if path == empty: return dot
      initial_slashes = path.startswith(sep)
      if (initial_slashes and path.startswith(sep*2) and not path.startswith(sep*3)):
          initial_slashes = 2
      comps = path.split(sep)
      new_comps = []
      for comp in comps:
          if comp in (empty, dot): continue
          if (comp != dotdot or (not initial_slashes and not new_comps) or
               (new_comps and new_comps[-1] == dotdot)):
              new_comps.append(comp)
          elif new_comps:
              new_comps.pop()
      comps = new_comps
      path = sep.join(comps)
      if initial_slashes: path = sep*initial_slashes + path
      return path or dot
  \<close>
\<close>

definition normpath_step :: "nat \<Rightarrow> string list \<Rightarrow> string \<Rightarrow> string list" where
  "normpath_step initial_slashes new_comps cmp =
     (if cmp = [] \<or> cmp = ''.'' then new_comps
      else if cmp \<noteq> ''..'' \<or> (initial_slashes = 0 \<and> new_comps = [])
              \<or> (new_comps \<noteq> [] \<and> last new_comps = ''..'')
           then new_comps @ [cmp]
      else if new_comps \<noteq> [] then butlast new_comps
      else new_comps)"

definition normpath :: "string \<Rightarrow> string" where
  "normpath p =
     (if p = [] then ''.''
      else
        let initial_slashes =
              (if startswith p ''/''
               then (if startswith p ''//'' \<and> \<not> startswith p ''///'' then 2 else 1)
               else (0 :: nat));
            comps = foldl (normpath_step initial_slashes) [] (split_on (CHR ''/'') p);
            joined = join_with ''/'' comps;
            r = (if initial_slashes \<noteq> 0
                 then replicate initial_slashes (CHR ''/'') @ joined else joined)
        in if r = [] then ''.'' else r)"

subsection \<open>\<open>SimpleHTTPRequestHandler\<close>: serving files\<close>

text \<open>
  \<^verbatim>\<open>
  def translate_path(self, path):
      path = path.split('?',1)[0]
      path = path.split('#',1)[0]
      trailing_slash = path.rstrip().endswith('/')
      try: path = urllib.parse.unquote(path, errors='surrogatepass')
      except UnicodeDecodeError: path = urllib.parse.unquote(path)
      path = posixpath.normpath(path)
      words = path.split('/')
      words = filter(None, words)
      path = self.directory
      for word in words:
          if os.path.dirname(word) or word in (os.curdir, os.pardir):
              continue
          path = os.path.join(path, word)
      if trailing_slash: path += '/'
      return path
  \<close>
  Percent-decoding is the \<open>unquote\<close> of the environment.
\<close>

definition skipped_word :: "string \<Rightarrow> bool" where
  "skipped_word word = (os_path_dirname word \<noteq> [] \<or> word = ''.'' \<or> word = ''..'')"

definition translate_path :: "env \<Rightarrow> handler \<Rightarrow> string \<Rightarrow> string" where
  "translate_path e h p =
     (let p1 = takeWhile (\<lambda>c. c \<noteq> CHR ''?'') p;
          p2 = takeWhile (\<lambda>c. c \<noteq> CHR ''#'') p1;
          trailing_slash = endswith (rstrip p2) ''/'';
          p3 = normpath (unquote e p2);
          words = filter (\<lambda>w. w \<noteq> []) (split_on (CHR ''/'') p3);
          p4 = foldl (\<lambda>acc word. if skipped_word word then acc else os_path_join acc word)
                 (directory h) words
      in if trailing_slash then p4 @ ''/'' else p4)"

text \<open>
  File-system calls. \<open>os.path.isdir\<close> and \<open>os.path.isfile\<close> catch the
  \<open>ValueError\<close> of a path with a NUL byte and return \<open>False\<close>; \<open>open\<close>
  does not. Each call is appended to \<open>fs_trace\<close>.
\<close>

definition has_nul :: "string \<Rightarrow> bool" where
  "has_nul p = (CHR 0x00 \<in> set p)"

definition path_isdir :: "env \<Rightarrow> handler \<Rightarrow> string \<Rightarrow> handler \<times> bool" where
  "path_isdir e h p = (h\<lparr>fs_trace := fs_trace h @ [Isdir p]\<rparr>, \<not> has_nul p \<and> os_isdir e p)"

definition path_isfile :: "env \<Rightarrow> handler \<Rightarrow> string \<Rightarrow> handler \<times> bool" where
  "path_isfile e h p = (h\<lparr>fs_trace := fs_trace h @ [Isfile p]\<rparr>, \<not> has_nul p \<and> os_isfile e p)"

datatype open_result = Opened file_obj | OSError | Raised py_error

definition open_rb :: "env \<Rightarrow> handler \<Rightarrow> string \<Rightarrow> handler \<times> open_result" where
  "open_rb e h p =
     (h\<lparr>fs_trace := fs_trace h @ [Open p]\<rparr>,
      if has_nul p then Raised ValueError
      else (case os_open e p of None \<Rightarrow> OSError | Some f \<Rightarrow> Opened f))"

text \<open>
  \<^verbatim>\<open>
  def send_error(self, code, message=None, explain=None):
      try: shortmsg, longmsg = self.responses[code]
      except KeyError: shortmsg, longmsg = '???', '???'
      if message is None: message = shortmsg
      if explain is None: explain = longmsg
      self.log_error("code %d, message %s", code, message)
      self.send_response(code, message)
      self.send_header('Connection', 'close')
      body = None
      if (code >= 200 and code not in (HTTPStatus.NO_CONTENT,
                  HTTPStatus.RESET_CONTENT, HTTPStatus.NOT_MODIFIED)):
          content = (self.error_message_format % {'code': code,
              'message': html.escape(message, quote=False),
              'explain': html.escape(explain, quote=False)})
          body = content.encode('UTF-8', 'replace')
          self.send_header("Content-Type", self.error_content_type)
          self.send_header('Content-Length', str(len(body)))
      self.end_headers()
      if self.command != 'HEAD' and body:
          self.wfile.write(body)
  \<close>
  The formatted and encoded page is \<open>error_content\<close> of the environment.
\<close>

definition error_content_type :: string where
  "error_content_type = ''text/html;charset=utf-8''"

definition send_error :: "env \<Rightarrow> handler \<Rightarrow> int \<Rightarrow> string option \<Rightarrow> string option \<Rightarrow> py_error + handler" where
  "send_error e h code message explain =
     (let (shortmsg, longmsg) = (case responses e code of Some sl \<Rightarrow> sl | None \<Rightarrow> (''???'', ''???''));
          msg = (case message of None \<Rightarrow> shortmsg | Some m \<Rightarrow> m);
          expl = (case explain of None \<Rightarrow> longmsg | Some x \<Rightarrow> x);
          h1 = send_response e h code (Some msg);
          h2 = send_header h1 ''Connection'' ''close'';
          with_body = (code \<ge> 200 \<and> code \<noteq> 204 \<and> code \<noteq> 205 \<and> code \<noteq> 304);
          body = error_content e code msg expl;
          h3 = (if with_body
                then send_header (send_header h2 ''Content-Type'' error_content_type)
                       ''Content-Length'' (str_nat (length body))
                else h2)
      in case end_headers h3 of
           Inl x \<Rightarrow> Inl x
         | Inr h4 \<Rightarrow>
             Inr (if command h4 \<noteq> ''HEAD'' \<and> with_body \<and> body \<noteq> []
                  then h4\<lparr>wfile := wfile h4 @ body\<rparr> else h4))"

text \<open>
  \<^verbatim>\<open>
  def list_directory(self, path):
      try: list = os.listdir(path)
      except OSError:
          self.send_error(HTTPStatus.NOT_FOUND, "No permission to list directory")
          return None
      ...                       # builds the HTML page  encoded
      f = io.BytesIO(); f.write(encoded); f.seek(0)
      self.send_response(HTTPStatus.OK)
      self.send_header("Content-type", "text/html; charset=%s" % enc)
      self.send_header("Content-Length", str(len(encoded)))
      self.end_headers()
      return f
  \<close>
  The page built from \<open>os.listdir(path)\<close> and \<open>self.path\<close> is \<open>listing\<close> of the
  environment, \<open>None\<close> when \<open>os.listdir\<close> raises \<open>OSError\<close>. The result is the
  handler and the bytes of the file object returned, if one is.
\<close>

definition list_directory :: "env \<Rightarrow> handler \<Rightarrow> string \<Rightarrow> py_error + (handler \<times> string option)" where
  "list_directory e h p =
     (let h0 = h\<lparr>fs_trace := fs_trace h @ [Listdir p]\<rparr>
      in case listing e p (path h) of
           None \<Rightarrow>
             (case send_error e h0 404 (Some ''No permission to list directory'') None of
                Inl x \<Rightarrow> Inl x
              | Inr h1 \<Rightarrow> Inr (h1, None))
         | Some encoded \<Rightarrow>
             (let h1 = send_response e h0 200 None;
                  h2 = send_header h1 ''Content-type'' (''text/html; charset='' @ fs_encoding e);
                  h3 = send_header h2 ''Content-Length'' (str_nat (length encoded))
              in case end_headers h3 of
                   Inl x \<Rightarrow> Inl x
                 | Inr h4 \<Rightarrow> Inr (h4, Some encoded)))"

text \<open>
  The loop of \<open>send_head\<close> over \<open>"index.html", "index.htm"\<close>: the first of the two
  that \<open>os.path.isfile\<close> accepts, \<open>None\<close> when the loop reaches its \<open>else\<close>.
\<close>

definition find_index :: "env \<Rightarrow> handler \<Rightarrow> string \<Rightarrow> handler \<times> string option" where
  "find_index e h p =
     (let (h1, f1) = path_isfile e h (os_path_join p ''index.html'')
      in if f1 then (h1, Some (os_path_join p ''index.html''))
         else let (h2, f2) = path_isfile e h1 (os_path_join p ''index.htm'')
              in if f2 then (h2, Some (os_path_join p ''index.htm'')) else (h2, None))"

text \<open>
  \<^verbatim>\<open>
  def send_head(self):
      path = self.translate_path(self.path)
      f = None
      if os.path.isdir(path):
          parts = urllib.parse.urlsplit(self.path)
          if not parts.path.endswith('/'):
              self.send_response(HTTPStatus.MOVED_PERMANENTLY)
              new_url = urllib.parse.urlunsplit(new_parts)
              self.send_header("Location", new_url)
              self.send_header("Content-Length", "0")
              self.end_headers()
              return None
          for index in "index.html", "index.htm":
              index = os.path.join(path, index)
              if os.path.isfile(index):
                  path = index
                  break
          else:
              return self.list_directory(path)
      ctype = self.guess_type(path)
      if path.endswith("/"):
          self.send_error(HTTPStatus.NOT_FOUND, "File not found")
          return None
      try: f = open(path, 'rb')
      except OSError:
          self.send_error(HTTPStatus.NOT_FOUND, "File not found")
          return None
      try:
          fs = os.fstat(f.fileno())
          if ("If-Modified-Since" in self.headers and "If-None-Match" not in self.headers):
              ...                                   # last_modif <= ims:
                          self.send_response(HTTPStatus.NOT_MODIFIED)
                          self.end_headers()
                          f.close()
                          return None
          self.send_response(HTTPStatus.OK)
          self.send_header("Content-type", ctype)
          self.send_header("Content-Length", str(fs[6]))
          self.send_header("Last-Modified", self.date_time_string(fs.st_mtime))
          self.end_headers()
          return f
      except:
          f.close()
          raise
  \<close>
  The comparison of the \<open>If-Modified-Since\<close> header with the file's time is
  \<open>not_modified\<close> of the environment; \<open>urlsplit_path\<close> is \<open>parts.path\<close> and
  \<open>redirect_url\<close> is \<open>new_url\<close>.
\<close>

definition lift_none :: "py_error + handler \<Rightarrow> py_error + (handler \<times> string option)" where
  "lift_none r = (case r of Inl x \<Rightarrow> Inl x | Inr h \<Rightarrow> Inr (h, None))"

definition send_file :: "env \<Rightarrow> handler \<Rightarrow> string \<Rightarrow> py_error + (handler \<times> string option)" where
  "send_file e h p =
     (let ctype = guess_type e p
      in if endswith p ''/'' then lift_none (send_error e h 404 (Some ''File not found'') None)
         else
           let (h1, r) = open_rb e h p
           in case r of
                Raised x \<Rightarrow> Inl x
              | OSError \<Rightarrow> lift_none (send_error e h1 404 (Some ''File not found'') None)
              | Opened f \<Rightarrow>
                 (if not_modified e (headers h1) f
                  then lift_none (end_headers (send_response e h1 304 None))
                  else
                    let h2 = send_response e h1 200 None;
                        h3 = send_header h2 ''Content-type'' ctype;
                        h4 = send_header h3 ''Content-Length'' (str_nat (st_size f));
                        h5 = send_header h4 ''Last-Modified'' (last_modified f)
                    in (case end_headers h5 of
                          Inl x \<Rightarrow> Inl x
                        | Inr h6 \<Rightarrow> Inr (h6, Some (content f)))))"

definition send_head :: "env \<Rightarrow> handler \<Rightarrow> py_error + (handler \<times> string option)" where
  "send_head e h =
     (let p = translate_path e h (path h);
          (h1, isd) = path_isdir e h p
      in if isd then
           (if \<not> endswith (urlsplit_path e (path h)) ''/'' then
              (let h2 = send_response e h1 301 None;
                   h3 = send_header h2 ''Location'' (redirect_url e (path h));
                   h4 = send_header h3 ''Content-Length'' ''0''
               in lift_none (end_headers h4))
            else
              (let (h2, index) = find_index e h1 p
               in case index of
                    None \<Rightarrow> list_directory e h2 p
                  | Some p' \<Rightarrow> send_file e h2 p'))
         else send_file e h1 p)"

text \<open>
  \<^verbatim>\<open>
  def do_GET(self):
      f = self.send_head()
      if f:
          try: self.copyfile(f, self.wfile)
          finally: f.close()

  def do_HEAD(self):
      f = self.send_head()
      if f: f.close()
  \<close>
\<close>

definition do_GET :: "env \<Rightarrow> handler \<Rightarrow> py_error + handler" where
  "do_GET e h =
     (case send_head e h of
        Inl x \<Rightarrow> Inl x
      | Inr (h1, None) \<Rightarrow> Inr h1
      | Inr (h1, Some bytes) \<Rightarrow> Inr (h1\<lparr>wfile := wfile h1 @ bytes\<rparr>))"

definition do_HEAD :: "env \<Rightarrow> handler \<Rightarrow> py_error + handler" where
  "do_HEAD e h = (case send_head e h of Inl x \<Rightarrow> Inl x | Inr (h1, f) \<Rightarrow> Inr h1)"

text \<open>
  The dispatch of \<open>handle_one_request\<close>, after \<open>parse_request\<close> has returned true:
  \<^verbatim>\<open>
      mname = 'do_' + self.command
      if not hasattr(self, mname):
          self.send_error(HTTPStatus.NOT_IMPLEMENTED,
              "Unsupported method (%r)" % self.command)
          return
      method = getattr(self, mname)
      method()
  \<close>
  The class and its bases define \<open>do_GET\<close>, \<open>do_HEAD\<close> and \<open>do_OPTIONS\<close>.
\<close>

definition handle_method :: "env \<Rightarrow> handler \<Rightarrow> py_error + handler" where
  "handle_method e h =
     (if command h = ''GET'' then do_GET e h
      else if command h = ''HEAD'' then do_HEAD e h
      else if command h = ''OPTIONS'' then do_OPTIONS e h
      else send_error e h 501 (Some (''Unsupported method ('' @ py_repr e (command h) @ '')'')) None)"

subsection \<open>\<open>socketserver\<close>: one connection after the other\<close>

text \<open>
  A request as \<open>parse_request\<close> leaves it in the handler: the method, the target, the
  version token of the request line (\<open>HTTP/0.9\<close> when the line has none) and the headers.
\<close>

record request =
  req_command :: string
  req_path :: string
  req_version :: string
  req_headers :: "(string \<times> string) list"

text \<open>
  The server object: the port of \<open>server_address\<close>, the directory bound into
  \<open>RequestHandlerClass\<close> by \<open>functools.partial(CORSRequestHandler, directory=args.dir)\<close>,
  and whether the file descriptor of \<open>self.socket\<close> is open.
\<close>

record tcp_server =
  server_port :: int
  handler_dir :: string
  fd_open :: bool

text \<open>
  \<open>finish_request\<close> instantiates the handler class for the connection;
  \<open>SimpleHTTPRequestHandler.__init__\<close> stores \<open>directory\<close> and the base constructor
  runs \<open>handle\<close>. With \<open>protocol_version = "HTTP/1.0"\<close> the connection is closed
  after one request.
\<close>

definition handler_factory :: "string \<Rightarrow> request \<Rightarrow> handler" where
  "handler_factory d r =
     \<lparr>command = req_command r, path = req_path r, request_version = req_version r,
      headers = req_headers r, directory = d, headers_buffer = None, wfile = [],
      close_connection = True, fs_trace = []\<rparr>"

text \<open>
  \<^verbatim>\<open>
  def _handle_request_noblock(self):
      ...
          try:
              self.process_request(request, client_address)
          except Exception:
              self.handle_error(request, client_address)
              self.shutdown_request(request)
  \<close>
  The result is the server and the bytes the client received; an exception of the handler
  is caught here and the client receives what was written before it, which is nothing.
\<close>

definition handle_request_noblock :: "env \<Rightarrow> tcp_server \<Rightarrow> request \<Rightarrow> tcp_server \<times> string" where
  "handle_request_noblock e srv r =
     (case handle_method e (handler_factory (handler_dir srv) r) of
        Inr h \<Rightarrow> (srv, wfile h)
      | Inl x \<Rightarrow> (srv, []))"

fun serve_requests :: "env \<Rightarrow> tcp_server \<Rightarrow> request list \<Rightarrow> tcp_server \<times> string list" where
  "serve_requests e srv [] = (srv, [])"
| "serve_requests e srv (r # rs) =
     (let (srv1, reply) = handle_request_noblock e srv r;
          (srv2, replies) = serve_requests e srv1 rs
      in (srv2, reply # replies))"

subsection \<open>\<open>main\<close>\<close>

text \<open>
  The command line, as the value strings given to \<open>--port\<close>/\<open>-p\<close> and
  \<open>--dir\<close>/\<open>-d\<close> (\<open>None\<close> when the option is absent). Characters are code points
  below 256.
\<close>

record cli =
  port_arg :: "string option"
  dir_arg :: "string option"

record args =
  port :: int
  dir :: string

text \<open>
  \<open>int(s)\<close> in base 10, the \<open>type=int\<close> of \<open>--port\<close>: white space around the
  number is dropped (the code points 9 to 13, 32, 133 and 160), then an optional sign, then
  digits with single underscores between them; more than 4300 digits are refused
  (\<open>sys.int_info.default_max_str_digits\<close>). \<open>None\<close> is \<open>ValueError\<close>.
\<close>

definition is_int_space :: "char \<Rightarrow> bool" where
  "is_int_space c = (let n = (of_char c :: nat) in
     (9 \<le> n \<and> n \<le> 13) \<or> n = 32 \<or> n = 133 \<or> n = 160)"

definition is_digit :: "char \<Rightarrow> bool" where
  "is_digit c = (let n = (of_char c :: nat) in 48 \<le> n \<and> n \<le> 57)"

definition digit_val :: "char \<Rightarrow> int" where
  "digit_val c = int (of_char c) - 48"

fun parse_digits :: "string \<Rightarrow> int \<Rightarrow> bool \<Rightarrow> int option" where
  "parse_digits [] acc prev_digit = (if prev_digit then Some acc else None)"
| "parse_digits (c # cs) acc prev_digit =
     (if is_digit c then parse_digits cs (10 * acc + digit_val c) True
      else if c = CHR ''_'' \<and> prev_digit then parse_digits cs acc False
      else None)"

definition py_int :: "string \<Rightarrow> int option" where
  "py_int s =
     (let t = rev (dropWhile is_int_space (rev (dropWhile is_int_space s)));
          (negative, body) = (case t of
                                [] \<Rightarrow> (False, t)
                              | c # r \<Rightarrow> if c = CHR ''-'' then (True, r)
                                         else if c = CHR ''+'' then (False, r)
                                         else (False, t))
      in if length (filter is_digit body) > 4300 then None
         else (case parse_digits body 0 False of
                 None \<Rightarrow> None
               | Some n \<Rightarrow> Some (if negative then - n else n)))"

text \<open>
  \<^verbatim>\<open>
  parser.add_argument("--port", "-p", type=int, default=8000, ...)
  parser.add_argument("--dir", "-d", default="public", ...)
  args = parser.parse_args()
  \<close>
  A value that \<open>int\<close> refuses makes \<open>parse_args\<close> call \<open>parser.error\<close>, which prints the
  usage and the message to standard error and exits with status 2.
\<close>

definition parse_args :: "cli \<Rightarrow> string + args" where
  "parse_args c =
     (let d = (case dir_arg c of None \<Rightarrow> ''public'' | Some x \<Rightarrow> x)
      in case port_arg c of
           None \<Rightarrow> Inr \<lparr>port = 8000, dir = d\<rparr>
         | Some s \<Rightarrow> (case py_int s of
                        None \<Rightarrow> Inl s
                      | Some n \<Rightarrow> Inr \<lparr>port = n, dir = d\<rparr>))"

text \<open>
  Exceptions of the process, lines of output by their origin, and the calls made on the
  listening socket. \<open>Fd_closed\<close> is the release of the descriptor by the operating system.
\<close>

datatype proc_exn = PortOverflowError | SocketError string | ServeException string

datatype line = Printed string | Usage | Invalid_int_value string | Traceback proc_exn | Serve_log string

datatype event =
  Socket_created | Bind_called int | Listen_called | Serve_forever_called
  | Server_close_called | Fd_closed

datatype serve_end = KeyboardInterrupt | Exception_raised string | Shutdown_requested

text \<open>
  What the process meets: the outcome of \<open>bind\<close> and of \<open>listen\<close> for a port in
  0..65535 (\<open>None\<close> is success, otherwise the \<open>OSError\<close>), the requests that arrive while
  it serves, what \<open>log_message\<close> and \<open>handle_error\<close> write to standard error
  meanwhile, and how \<open>serve_forever\<close> ends.
\<close>

record world =
  os_bind :: "int \<Rightarrow> string option"
  os_listen :: "int \<Rightarrow> string option"
  incoming :: "request list"
  serve_stderr :: "string list"
  ending :: serve_end

record outcome =
  stdout :: "line list"
  stderr :: "line list"
  exit_code :: int
  events :: "event list"
  replies :: "string list"

text \<open>
  \<^verbatim>\<open>
  def server_close(self):           # TCPServer
      self.socket.close()
  \<close>
  \<open>socket.close\<close> releases the descriptor when it is still open and does nothing on a
  closed socket.
\<close>

definition server_close :: "tcp_server \<Rightarrow> tcp_server \<times> event list" where
  "server_close srv =
     (if fd_open srv then (srv\<lparr>fd_open := False\<rparr>, [Server_close_called, Fd_closed])
      else (srv, [Server_close_called]))"

text \<open>
  \<^verbatim>\<open>
  def __init__(self, server_address, RequestHandlerClass, bind_and_activate=True):
      BaseServer.__init__(self, server_address, RequestHandlerClass)
      self.socket = socket.socket(self.address_family, self.socket_type)
      if bind_and_activate:
          try:
              self.server_bind()          # self.socket.bind(self.server_address)
              self.server_activate()      # self.socket.listen(self.request_queue_size)
          except:
              self.server_close()
              raise
  \<close>
  \<open>socket.bind\<close> raises \<open>OverflowError\<close> for a port outside 0..65535 before it
  reaches the operating system.
\<close>

definition TCPServer_init :: "world \<Rightarrow> int \<Rightarrow> string \<Rightarrow> (proc_exn + tcp_server) \<times> event list" where
  "TCPServer_init w p d =
     (let srv = \<lparr>server_port = p, handler_dir = d, fd_open = True\<rparr>;
          (bound, evs) =
            (if p < 0 \<or> 65535 < p then (Some PortOverflowError, [Bind_called p])
             else (case os_bind w p of
                     Some msg \<Rightarrow> (Some (SocketError msg), [Bind_called p])
                   | None \<Rightarrow>
                       (case os_listen w p of
                          Some msg \<Rightarrow> (Some (SocketError msg), [Bind_called p, Listen_called])
                        | None \<Rightarrow> (None, [Bind_called p, Listen_called]))))
      in case bound of
           Some x \<Rightarrow> (Inl x, Socket_created # evs @ snd (server_close srv))
         | None \<Rightarrow> (Inr srv, Socket_created # evs))"

definition serving_message :: "args \<Rightarrow> string" where
  "serving_message a =
     ''Serving '' @ [CHR 0x27] @ dir a @ [CHR 0x27] @ '' at http://localhost:'' @ str_int (port a)
       @ '' with CORS enabled''"

text \<open>
  \<^verbatim>\<open>
  def main() -> None:
      ...
      args = parser.parse_args()
      handler_factory = functools.partial(CORSRequestHandler, directory=args.dir)
      with socketserver.TCPServer(("", args.port), handler_factory) as httpd:
          print(f"Serving '{args.dir}' at http://localhost:{args.port} with CORS enabled",
                file=sys.stderr)
          try:
              httpd.serve_forever()
          except KeyboardInterrupt:
              print("Shutting down server...", file=sys.stderr)
          finally:
              httpd.server_close()
  \<close>
  Leaving the \<open>with\<close> block calls \<open>BaseServer.__exit__\<close>, which is
  \<open>self.server_close()\<close>. An exception that leaves \<open>main\<close> ends the process with a
  traceback on standard error and status 1.
\<close>

definition main :: "env \<Rightarrow> world \<Rightarrow> cli \<Rightarrow> outcome" where
  "main e w c =
     (case parse_args c of
        Inl s \<Rightarrow>
          \<lparr>stdout = [], stderr = [Usage, Invalid_int_value s], exit_code = 2,
           events = [], replies = []\<rparr>
      | Inr a \<Rightarrow>
          (case TCPServer_init w (port a) (dir a) of
             (Inl x, evs) \<Rightarrow>
               \<lparr>stdout = [], stderr = [Traceback x], exit_code = 1,
                events = evs, replies = []\<rparr>
           | (Inr httpd, evs) \<Rightarrow>
               (let err1 = [Printed (serving_message a)];
                    (httpd1, rs) = serve_requests e httpd (incoming w);
                    err2 = err1 @ map Serve_log (serve_stderr w);
                    err3 = (case ending w of
                              KeyboardInterrupt \<Rightarrow> err2 @ [Printed ''Shutting down server...'']
                            | Exception_raised x \<Rightarrow> err2
                            | Shutdown_requested \<Rightarrow> err2);
                    (httpd2, close1) = server_close httpd1;
                    (httpd3, close2) = server_close httpd2;
                    evs1 = evs @ [Serve_forever_called] @ close1 @ close2
                in case ending w of
                     Exception_raised x \<Rightarrow>
                       \<lparr>stdout = [], stderr = err3 @ [Traceback (ServeException x)],
                        exit_code = 1, events = evs1, replies = rs\<rparr>
                   | _ \<Rightarrow>
                       \<lparr>stdout = [], stderr = err3, exit_code = 0,
                        events = evs1, replies = rs\<rparr>)))"

subsection \<open>A sample environment\<close>

text \<open>
  A file system with the directory \<open>public\<close> holding \<open>index.html\<close> and \<open>app.js\<close>, on
  which the theorems are instantiated. Request targets without \<open>%\<close> are their own
  percent-decoding.
\<close>

definition sample_file :: file_obj where
  "sample_file = \<lparr>content = ''<h1>hi</h1>'', st_size = 11,
                   last_modified = ''Mon, 02 Nov 2026 10:00:00 GMT''\<rparr>"

definition sample_env :: env where
  "sample_env =
     \<lparr>version_string = ''SimpleHTTP/0.6 Python/3.11.10'',
      date_time_string = ''Tue, 03 Nov 2026 12:00:00 GMT'',
      responses = (\<lambda>code. if code = 200 then Some (''OK'', ''Request fulfilled, document follows'')
                           else if code = 404 then Some (''Not Found'', ''Nothing matches the given URI'')
                           else None),
      error_content = (\<lambda>code msg expl. ''<p>Error code: '' @ str_int code @ ''</p>''),
      py_repr = (\<lambda>s. [CHR 0x27] @ s @ [CHR 0x27]),
      unquote = (\<lambda>s. s),
      urlsplit_path = (\<lambda>s. takeWhile (\<lambda>c. c \<noteq> CHR ''?'') s),
      redirect_url = (\<lambda>s. s @ ''/''),
      guess_type = (\<lambda>p. if endswith p ''.html'' then ''text/html'' else ''application/octet-stream''),
      os_isdir = (\<lambda>p. p = ''public'' \<or> p = ''public/''),
      os_isfile = (\<lambda>p. p = ''public/index.html'' \<or> p = ''public/app.js''),
      os_open = (\<lambda>p. if p = ''public/index.html'' \<or> p = ''public/app.js''
                      then Some sample_file else None),
      listing = (\<lambda>p target. None),
      fs_encoding = ''utf-8'',
      not_modified = (\<lambda>hs f. False)\<rparr>"

definition sample_request :: "string \<Rightarrow> string \<Rightarrow> request" where
  "sample_request m target =
     \<lparr>req_command = m, req_path = target, req_version = ''HTTP/1.1'', req_headers = []\<rparr>"

definition sample_world :: world where
  "sample_world =
     \<lparr>os_bind = (\<lambda>p. if p = 8000 then Some ''[Errno 98] Address already in use'' else None),
      os_listen = (\<lambda>p. None),
      incoming = [sample_request ''GET'' ''/index.html'', sample_request ''OPTIONS'' ''/x''],
      serve_stderr = [],
      ending = KeyboardInterrupt\<rparr>"


definition nul_request :: request where
  "nul_request =
     \<lparr>req_command = ''GET'', req_path = ''/a'' @ [CHR 0x00], req_version = ''HTTP/1.1'',
      req_headers = []\<rparr>"

subsection \<open>Properties of responses\<close>






text \<open>
  The bytes that \<open>end_headers\<close> writes after the header lines that were already in
  the buffer when it was called.
\<close>

definition appended_by_end_headers :: "handler \<Rightarrow> string" where
  "appended_by_end_headers h =
     (case end_headers h of
        Inr h' \<Rightarrow> drop (length (wfile h) + length (concat (pending h))) (wfile h')
      | Inl x \<Rightarrow> [])"

subsection \<open>Facts about the response head\<close>

lemma lower_length: "length (lower s) = length s"
  by (simp add: lower_def)

lemma lower_neq_by_length: "length s \<noteq> length t \<Longrightarrow> lower s \<noteq> t"
  using lower_length by metis

lemma send_header_plain:
  assumes "length keyword \<noteq> 10"
  shows "send_header h keyword v =
           (if request_version h \<noteq> ''HTTP/0.9''
            then h\<lparr>headers_buffer := Some (pending h @ [header_line keyword v])\<rparr>
            else h)"
proof -
  have "lower keyword \<noteq> ''connection''"
    using assms by (intro lower_neq_by_length) simp
  then show ?thesis
    by (simp add: send_header_def)
qed

lemma end_headers_eq:
  assumes "request_version h \<noteq> ''HTTP/0.9''"
  shows "end_headers h =
           Inr (h\<lparr>wfile := wfile h @ concat (pending h) @ concat cors_lines @ CRLF,
                  headers_buffer := Some []\<rparr>)"
  using assms
  by (simp add: end_headers_def send_header_plain base_end_headers_def flush_headers_def
      pending_def cors_lines_def Let_def)

lemma end_headers_09:
  assumes "request_version h = ''HTTP/0.9''"
  shows "end_headers h = Inr h"
  using assms
  by (simp add: end_headers_def send_header_plain base_end_headers_def Let_def)

lemma send_header_fields [simp]:
  "wfile (send_header h k v) = wfile h"
  "request_version (send_header h k v) = request_version h"
  "command (send_header h k v) = command h"
  "path (send_header h k v) = path h"
  "directory (send_header h k v) = directory h"
  "fs_trace (send_header h k v) = fs_trace h"
  "headers (send_header h k v) = headers h"
  by (simp_all add: send_header_def Let_def)


lemma send_response_only_fields [simp]:
  "wfile (send_response_only e h c m) = wfile h"
  "request_version (send_response_only e h c m) = request_version h"
  "command (send_response_only e h c m) = command h"
  "path (send_response_only e h c m) = path h"
  "directory (send_response_only e h c m) = directory h"
  "fs_trace (send_response_only e h c m) = fs_trace h"
  "headers (send_response_only e h c m) = headers h"
  by (simp_all add: send_response_only_def Let_def)

lemma send_response_fields [simp]:
  "wfile (send_response e h c m) = wfile h"
  "request_version (send_response e h c m) = request_version h"
  "command (send_response e h c m) = command h"
  "path (send_response e h c m) = path h"
  "directory (send_response e h c m) = directory h"
  "fs_trace (send_response e h c m) = fs_trace h"
  "headers (send_response e h c m) = headers h"
  by (simp_all add: send_response_def)






lemma end_headers_total: "\<exists>h'. end_headers h = Inr h'"
  using end_headers_eq end_headers_09 by (cases "request_version h = ''HTTP/0.9''") auto




lemma split_on_nonempty [simp]: "split_on c xs \<noteq> []"
  by (induction xs) (auto split: list.splits)



























subsection \<open>The claims about the request handler\<close>

lemma digit_chars:
  "digit_char 0 = CHR ''0''" "digit_char 1 = CHR ''1''" "digit_char 2 = CHR ''2''"
  "digit_char 3 = CHR ''3''" "digit_char 4 = CHR ''4''" "digit_char 5 = CHR ''5''"
  "digit_char 6 = CHR ''6''" "digit_char 7 = CHR ''7''" "digit_char 8 = CHR ''8''"
  "digit_char 9 = CHR ''9''" "digit_char (Suc 0) = CHR ''1''"
  by code_simp+

lemmas str_int_eval = str_int_def str_nat.simps digit_chars

lemmas py_int_eval = py_int_def is_int_space_def is_digit_def digit_val_def












text \<open>
  Claim C10. For any two requests, whatever their method, path, headers or directory,
  \<open>end_headers\<close> appends the same bytes, provided both or neither are HTTP/0.9; when the
  request is not HTTP/0.9 these bytes are the four header lines with their constant values
  and the blank line.
\<close>

theorem appended_headers_are_constant:
  "((request_version h1 = ''HTTP/0.9'') = (request_version h2 = ''HTTP/0.9'')
      \<longrightarrow> appended_by_end_headers h1 = appended_by_end_headers h2)
   \<and> (request_version h1 \<noteq> ''HTTP/0.9''
        \<longrightarrow> appended_by_end_headers h1 = concat cors_lines @ CRLF)"
proof -
  have a: "appended_by_end_headers h = concat cors_lines @ CRLF"
    if "request_version h \<noteq> ''HTTP/0.9''" for h
    using end_headers_eq [OF that] by (simp add: appended_by_end_headers_def)
  have b: "appended_by_end_headers h = []" if "request_version h = ''HTTP/0.9''" for h
    using end_headers_09 [OF that] by (simp add: appended_by_end_headers_def)
  show ?thesis
    using a b by (cases "request_version h1 = ''HTTP/0.9''") auto
qed

theorem appended_headers_are_constant_witness:
  "(request_version (handler_factory ''public'' (sample_request ''GET'' ''/index.html'')) = ''HTTP/0.9'')
     = (request_version (handler_factory ''elsewhere'' (sample_request ''OPTIONS'' ''/x'')) = ''HTTP/0.9'')
   \<and> request_version (handler_factory ''public'' (sample_request ''GET'' ''/index.html'')) \<noteq> ''HTTP/0.9''
   \<and> appended_by_end_headers (handler_factory ''public'' (sample_request ''GET'' ''/index.html''))
       = appended_by_end_headers (handler_factory ''elsewhere'' (sample_request ''OPTIONS'' ''/x''))
   \<and> appended_by_end_headers (handler_factory ''public'' (sample_request ''GET'' ''/index.html''))
       = concat cors_lines @ CRLF"
proof -
  let ?h1 = "handler_factory ''public'' (sample_request ''GET'' ''/index.html'')"
  let ?h2 = "handler_factory ''elsewhere'' (sample_request ''OPTIONS'' ''/x'')"
  have v1: "request_version ?h1 \<noteq> ''HTTP/0.9''" and v2: "request_version ?h2 \<noteq> ''HTTP/0.9''"
    by (simp_all add: handler_factory_def sample_request_def)
  from appended_headers_are_constant [of ?h1 ?h2] v1 v2 show ?thesis
    by auto
qed




lemma do_GET_nul:
  assumes "has_nul (translate_path e h (path h))"
    and "\<not> endswith (translate_path e h (path h)) ''/''"
  shows "do_GET e h = Inl ValueError"
  using assms
  by (simp add: do_GET_def send_head_def path_isdir_def send_file_def open_rb_def Let_def)







text \<open>
  Claim C4 at a failing input. The target \<open>/a\<close> followed by a NUL byte resolves to a path
  that is no directory and cannot be opened, but \<open>open\<close> raises \<open>ValueError\<close>, which
  \<open>send_head\<close> does not catch: \<open>do_GET\<close> raises, no 404 and no header is written,
  and the client receives nothing. The server catches the exception and is unchanged.
\<close>

theorem nul_path_get_raises:
  "translate_path sample_env (handler_factory ''public'' nul_request) (req_path nul_request)
     = ''public/a'' @ [CHR 0x00]
   \<and> \<not> os_isdir sample_env (''public/a'' @ [CHR 0x00])
   \<and> os_open sample_env (''public/a'' @ [CHR 0x00]) = None
   \<and> do_GET sample_env (handler_factory ''public'' nul_request) = Inl ValueError
   \<and> handle_request_noblock sample_env \<lparr>server_port = 8080, handler_dir = ''public'', fd_open = True\<rparr>
         nul_request
       = (\<lparr>server_port = 8080, handler_dir = ''public'', fd_open = True\<rparr>, [])"
proof -
  let ?h = "handler_factory ''public'' nul_request"
  have t: "translate_path sample_env ?h (req_path nul_request) = ''public/a'' @ [CHR 0x00]"
    by code_simp
  have f: "path ?h = req_path nul_request" "command ?h = ''GET''"
    by (simp_all add: handler_factory_def nul_request_def)
  have n: "has_nul (translate_path sample_env ?h (path ?h))"
    "\<not> endswith (translate_path sample_env ?h (path ?h)) ''/''"
    unfolding f t by (simp_all add: has_nul_def endswith_def)
  have g: "do_GET sample_env ?h = Inl ValueError"
    using n by (rule do_GET_nul)
  have "handle_method sample_env ?h = Inl ValueError"
    using g f by (simp add: handle_method_def)
  then have "handle_request_noblock sample_env
        \<lparr>server_port = 8080, handler_dir = ''public'', fd_open = True\<rparr> nul_request
       = (\<lparr>server_port = 8080, handler_dir = ''public'', fd_open = True\<rparr>, [])"
    by (simp add: handle_request_noblock_def)
  moreover have "\<not> os_isdir sample_env (''public/a'' @ [CHR 0x00])"
    "os_open sample_env (''public/a'' @ [CHR 0x00]) = None"
    by (simp_all add: sample_env_def)
  ultimately show ?thesis
    using t g by blast
qed

subsection \<open>The claims about the process\<close>

lemma handle_request_noblock_fst: "fst (handle_request_noblock e srv r) = srv"
  by (simp add: handle_request_noblock_def split: sum.splits)

lemma serve_requests_eq:
  "serve_requests e srv rs = (srv, map (\<lambda>r. snd (handle_request_noblock e srv r)) rs)"
proof (induction rs)
  case Nil
  then show ?case by simp
next
  case (Cons r rs)
  obtain reply where "handle_request_noblock e srv r = (srv, reply)"
    using handle_request_noblock_fst [of e srv r]
    by (cases "handle_request_noblock e srv r") auto
  then show ?case
    using Cons by simp
qed

lemma TCPServer_init_ok:
  assumes "0 \<le> p" "p \<le> 65535" "os_bind w p = None" "os_listen w p = None"
  shows "TCPServer_init w p d =
           (Inr \<lparr>server_port = p, handler_dir = d, fd_open = True\<rparr>,
            [Socket_created, Bind_called p, Listen_called])"
  using assms by (simp add: TCPServer_init_def)

lemma TCPServer_init_bind_failed:
  assumes "p < 0 \<or> 65535 < p \<or> os_bind w p \<noteq> None"
  shows "TCPServer_init w p d =
           (Inl (if p < 0 \<or> 65535 < p then PortOverflowError else SocketError (the (os_bind w p))),
            [Socket_created, Bind_called p, Server_close_called, Fd_closed])"
  using assms by (auto simp: TCPServer_init_def server_close_def)

lemma TCPServer_init_listen_failed:
  assumes "0 \<le> p" "p \<le> 65535" "os_bind w p = None" "os_listen w p = Some msg"
  shows "TCPServer_init w p d =
           (Inl (SocketError msg),
            [Socket_created, Bind_called p, Listen_called, Server_close_called, Fd_closed])"
  using assms by (simp add: TCPServer_init_def server_close_def)

lemma init_cases:
  "(p < 0 \<or> 65535 < p \<or> os_bind w p \<noteq> None)
   \<or> (\<exists>msg. 0 \<le> p \<and> p \<le> 65535 \<and> os_bind w p = None \<and> os_listen w p = Some msg)
   \<or> (0 \<le> p \<and> p \<le> 65535 \<and> os_bind w p = None \<and> os_listen w p = None)"
  by (cases "os_listen w p") auto

lemma main_serving:
  assumes "parse_args c = Inr a"
    and "0 \<le> port a" "port a \<le> 65535" "os_bind w (port a) = None" "os_listen w (port a) = None"
  shows "main e w c =
     \<lparr>stdout = [],
      stderr = Printed (serving_message a) # map Serve_log (serve_stderr w)
               @ (case ending w of
                    KeyboardInterrupt \<Rightarrow> [Printed ''Shutting down server...'']
                  | Exception_raised x \<Rightarrow> [Traceback (ServeException x)]
                  | Shutdown_requested \<Rightarrow> []),
      exit_code = (case ending w of Exception_raised x \<Rightarrow> 1 | _ \<Rightarrow> 0),
      events = [Socket_created, Bind_called (port a), Listen_called, Serve_forever_called,
                Server_close_called, Fd_closed, Server_close_called],
      replies = map (\<lambda>r. snd (handle_request_noblock e
                   \<lparr>server_port = port a, handler_dir = dir a, fd_open = True\<rparr> r)) (incoming w)\<rparr>"
  using assms
  by (cases "ending w")
    (simp_all add: main_def TCPServer_init_ok serve_requests_eq server_close_def Let_def)

lemma main_bind_failed:
  assumes "parse_args c = Inr a"
    and "port a < 0 \<or> 65535 < port a \<or> os_bind w (port a) \<noteq> None"
  shows "main e w c =
     \<lparr>stdout = [],
      stderr = [Traceback (if port a < 0 \<or> 65535 < port a then PortOverflowError
                           else SocketError (the (os_bind w (port a))))],
      exit_code = 1,
      events = [Socket_created, Bind_called (port a), Server_close_called, Fd_closed],
      replies = []\<rparr>"
  using assms(1) TCPServer_init_bind_failed [OF assms(2), of "dir a"]
  by (simp add: main_def)

lemma main_listen_failed:
  assumes "parse_args c = Inr a"
    and "0 \<le> port a" "port a \<le> 65535" "os_bind w (port a) = None" "os_listen w (port a) = Some msg"
  shows "main e w c =
     \<lparr>stdout = [], stderr = [Traceback (SocketError msg)], exit_code = 1,
      events = [Socket_created, Bind_called (port a), Listen_called, Server_close_called, Fd_closed],
      replies = []\<rparr>"
  using assms(1) TCPServer_init_listen_failed [OF assms(2-), of "dir a"]
  by (simp add: main_def)

lemma main_usage:
  assumes "parse_args c = Inl s"
  shows "main e w c = \<lparr>stdout = [], stderr = [Usage, Invalid_int_value s], exit_code = 2,
           events = [], replies = []\<rparr>"
  using assms by (simp add: main_def)

lemma parse_args_8080:
  "parse_args \<lparr>port_arg = Some ''8080'', dir_arg = None\<rparr> = Inr \<lparr>port = 8080, dir = ''public''\<rparr>"
  by (simp add: parse_args_def py_int_eval)

lemma parse_args_0:
  "parse_args \<lparr>port_arg = Some ''0'', dir_arg = None\<rparr> = Inr \<lparr>port = 0, dir = ''public''\<rparr>"
  by (simp add: parse_args_def py_int_eval)

text \<open>
  Claim C5. When the operating system refuses to bind the configured port, the process
  ends with status 1 and a traceback on standard error; the message \<open>Serving ...\<close> is
  never printed and \<open>serve_forever\<close> is never called; \<open>bind\<close> is called once, on
  the configured port, and the socket is closed: there is no retry and no other port.
\<close>

theorem bind_failure_is_fatal:
  assumes "parse_args c = Inr a" and "os_bind w (port a) = Some msg"
  shows "exit_code (main e w c) = 1
         \<and> (\<exists>x. stderr (main e w c) = [Traceback x])
         \<and> Printed (serving_message a) \<notin> set (stderr (main e w c))
         \<and> Serve_forever_called \<notin> set (events (main e w c))
         \<and> events (main e w c) = [Socket_created, Bind_called (port a), Server_close_called, Fd_closed]"
proof -
  have "port a < 0 \<or> 65535 < port a \<or> os_bind w (port a) \<noteq> None"
    using assms(2) by simp
  from main_bind_failed [OF assms(1) this, of e] show ?thesis
    by simp
qed

theorem bind_failure_is_fatal_witness:
  "parse_args \<lparr>port_arg = None, dir_arg = None\<rparr> = Inr \<lparr>port = 8000, dir = ''public''\<rparr>
   \<and> os_bind sample_world 8000 = Some ''[Errno 98] Address already in use''
   \<and> exit_code (main sample_env sample_world \<lparr>port_arg = None, dir_arg = None\<rparr>) = 1
   \<and> Serve_forever_called \<notin> set (events (main sample_env sample_world \<lparr>port_arg = None, dir_arg = None\<rparr>))"
proof -
  have p: "parse_args \<lparr>port_arg = None, dir_arg = None\<rparr> = Inr \<lparr>port = 8000, dir = ''public''\<rparr>"
    by (simp add: parse_args_def)
  have b: "os_bind sample_world (port \<lparr>port = 8000, dir = ''public''\<rparr>)
             = Some ''[Errno 98] Address already in use''"
    by (simp add: sample_world_def)
  from bind_failure_is_fatal [OF p b, of sample_env] p b show ?thesis
    by simp
qed

text \<open>
  Claim C6, as stated, fails: on the interrupt path \<open>server_close\<close> is called twice,
  by the \<open>finally\<close> block and by leaving the \<open>with\<close> block.
\<close>

theorem server_close_twice_counterexample:
  "ending sample_world = KeyboardInterrupt
   \<and> count_list (events (main sample_env sample_world \<lparr>port_arg = Some ''8080'', dir_arg = None\<rparr>))
       Server_close_called = 2"
  using main_serving [OF parse_args_8080, of sample_world sample_env]
  by (simp add: sample_world_def)

text \<open>
  Claim C6, amended. In every run that gets past argument parsing the listening socket is
  created once and its descriptor is released exactly once, and the run ends with the socket
  closed. \<open>server_close\<close> is called twice when the server has served (the
  \<open>finally\<close> block, then the exit of the \<open>with\<close> block; the second call finds the
  socket closed and does nothing) and once when the constructor fails.
\<close>

theorem socket_released_once:
  assumes "parse_args c = Inr a"
  shows "count_list (events (main e w c)) Socket_created = 1
         \<and> count_list (events (main e w c)) Fd_closed = 1
         \<and> last (events (main e w c)) \<in> {Fd_closed, Server_close_called}
         \<and> count_list (events (main e w c)) Server_close_called
             = (if Serve_forever_called \<in> set (events (main e w c)) then 2 else 1)"
proof -
  consider (fail) "port a < 0 \<or> 65535 < port a \<or> os_bind w (port a) \<noteq> None"
    | (listen) msg where "0 \<le> port a" "port a \<le> 65535" "os_bind w (port a) = None"
        "os_listen w (port a) = Some msg"
    | (ok) "0 \<le> port a" "port a \<le> 65535" "os_bind w (port a) = None" "os_listen w (port a) = None"
    using init_cases [of "port a" w] by blast
  then show ?thesis
  proof cases
    case fail
    from main_bind_failed [OF assms this, of e] show ?thesis by simp
  next
    case listen
    from main_listen_failed [OF assms this, of e] show ?thesis by simp
  next
    case ok
    from main_serving [OF assms this, of e] show ?thesis by simp
  qed
qed

theorem socket_released_once_witness:
  "parse_args \<lparr>port_arg = Some ''8080'', dir_arg = None\<rparr> = Inr \<lparr>port = 8080, dir = ''public''\<rparr>
   \<and> count_list (events (main sample_env sample_world \<lparr>port_arg = Some ''8080'', dir_arg = None\<rparr>)) Fd_closed = 1"
proof -
  have p: "parse_args \<lparr>port_arg = Some ''8080'', dir_arg = None\<rparr> = Inr \<lparr>port = 8080, dir = ''public''\<rparr>"
    by (rule parse_args_8080)
  from socket_released_once [OF p, of sample_env sample_world] p show ?thesis
    by simp
qed

text \<open>
  Claim C7, as stated, fails: the port value \<open>0\<close> is outside 1..65535, yet argument
  handling accepts it, no usage is printed, and the server is bound and serves.
\<close>

theorem port_zero_counterexample:
  "py_int ''0'' = Some 0
   \<and> Serve_forever_called \<in> set (events (main sample_env sample_world \<lparr>port_arg = Some ''0'', dir_arg = None\<rparr>))
   \<and> Usage \<notin> set (stderr (main sample_env sample_world \<lparr>port_arg = Some ''0'', dir_arg = None\<rparr>))
   \<and> exit_code (main sample_env sample_world \<lparr>port_arg = Some ''0'', dir_arg = None\<rparr>) = 0"
  using main_serving [OF parse_args_0, of sample_world sample_env]
  by (simp add: sample_world_def py_int_eval)

text \<open>
  Claim C7, amended. The port is an integer with default 8000, and argument handling checks
  no range. A value that \<open>int\<close> refuses is malformed input: usage and an error are
  printed and the process exits with status 2 without creating a socket. Every value that
  \<open>int\<close> accepts passes argument handling without a usage message and is handed to
  \<open>bind\<close>. A value below 0 or above 65535 then fails in \<open>bind\<close> with an uncaught
  \<open>OverflowError\<close>: a traceback, status 1, and \<open>serve_forever\<close> is never called.
\<close>

theorem port_argument_handling:
  "(port_arg c = None \<longrightarrow> (\<exists>d. parse_args c = Inr \<lparr>port = 8000, dir = d\<rparr>))
   \<and> (\<forall>s. port_arg c = Some s \<and> py_int s = None \<longrightarrow>
          stderr (main e w c) = [Usage, Invalid_int_value s] \<and> exit_code (main e w c) = 2
          \<and> events (main e w c) = [])
   \<and> (\<forall>s n. port_arg c = Some s \<and> py_int s = Some n \<longrightarrow>
          (\<exists>d. parse_args c = Inr \<lparr>port = n, dir = d\<rparr>) \<and> Usage \<notin> set (stderr (main e w c))
          \<and> Bind_called n \<in> set (events (main e w c)))
   \<and> (\<forall>s n. port_arg c = Some s \<and> py_int s = Some n \<and> (n < 0 \<or> 65535 < n) \<longrightarrow>
          stderr (main e w c) = [Traceback PortOverflowError] \<and> exit_code (main e w c) = 1
          \<and> Serve_forever_called \<notin> set (events (main e w c)))"
proof -
  have a: "\<exists>d. parse_args c = Inr \<lparr>port = 8000, dir = d\<rparr>" if "port_arg c = None"
    using that by (simp add: parse_args_def Let_def)
  have b: "stderr (main e w c) = [Usage, Invalid_int_value s] \<and> exit_code (main e w c) = 2
          \<and> events (main e w c) = []" if "port_arg c = Some s" "py_int s = None" for s
  proof -
    have "parse_args c = Inl s" using that by (simp add: parse_args_def Let_def)
    from main_usage [OF this, of e w] show ?thesis by simp
  qed
  have p: "parse_args c = Inr \<lparr>port = n, dir = (case dir_arg c of None \<Rightarrow> ''public'' | Some x \<Rightarrow> x)\<rparr>"
    if "port_arg c = Some s" "py_int s = Some n" for s n
    using that by (simp add: parse_args_def Let_def)
  have c1: "(\<exists>d. parse_args c = Inr \<lparr>port = n, dir = d\<rparr>) \<and> Usage \<notin> set (stderr (main e w c))
          \<and> Bind_called n \<in> set (events (main e w c))"
    if h: "port_arg c = Some s" "py_int s = Some n" for s n
  proof -
    let ?a = "\<lparr>port = n, dir = (case dir_arg c of None \<Rightarrow> ''public'' | Some x \<Rightarrow> x)\<rparr>"
    have pa: "parse_args c = Inr ?a" using h by (rule p)
    consider (fail) "port ?a < 0 \<or> 65535 < port ?a \<or> os_bind w (port ?a) \<noteq> None"
      | (listen) msg where "0 \<le> port ?a" "port ?a \<le> 65535" "os_bind w (port ?a) = None"
          "os_listen w (port ?a) = Some msg"
      | (ok) "0 \<le> port ?a" "port ?a \<le> 65535" "os_bind w (port ?a) = None"
          "os_listen w (port ?a) = None"
      using init_cases [of "port ?a" w] by blast
    then show ?thesis
    proof cases
      case fail
      from main_bind_failed [OF pa this, of e] pa show ?thesis by simp
    next
      case listen
      from main_listen_failed [OF pa this, of e] pa show ?thesis by simp
    next
      case ok
      from main_serving [OF pa this, of e] pa show ?thesis
        by (cases "ending w") auto
    qed
  qed
  have d: "stderr (main e w c) = [Traceback PortOverflowError] \<and> exit_code (main e w c) = 1
          \<and> Serve_forever_called \<notin> set (events (main e w c))"
    if h: "port_arg c = Some s" "py_int s = Some n" and r: "n < 0 \<or> 65535 < n" for s n
  proof -
    let ?a = "\<lparr>port = n, dir = (case dir_arg c of None \<Rightarrow> ''public'' | Some x \<Rightarrow> x)\<rparr>"
    have pa: "parse_args c = Inr ?a" using h by (rule p)
    have "port ?a < 0 \<or> 65535 < port ?a \<or> os_bind w (port ?a) \<noteq> None"
      using r by auto
    from main_bind_failed [OF pa this, of e] r show ?thesis by auto
  qed
  from a b c1 d show ?thesis by blast
qed

theorem port_argument_handling_witness:
  "py_int ''70000'' = Some 70000
   \<and> exit_code (main sample_env sample_world \<lparr>port_arg = Some ''70000'', dir_arg = None\<rparr>) = 1
   \<and> py_int ''80x'' = None
   \<and> exit_code (main sample_env sample_world \<lparr>port_arg = Some ''80x'', dir_arg = None\<rparr>) = 2
   \<and> (\<exists>d. parse_args \<lparr>port_arg = None, dir_arg = None\<rparr> = Inr \<lparr>port = 8000, dir = d\<rparr>)"
proof -
  have i1: "py_int ''70000'' = Some 70000" and i2: "py_int ''80x'' = None"
    by (simp_all add: py_int_eval)
  from port_argument_handling [of "\<lparr>port_arg = Some ''70000'', dir_arg = None\<rparr>" sample_env sample_world]
    port_argument_handling [of "\<lparr>port_arg = Some ''80x'', dir_arg = None\<rparr>" sample_env sample_world]
    port_argument_handling [of "\<lparr>port_arg = None, dir_arg = None\<rparr>" sample_env sample_world]
    i1 i2
  show ?thesis by simp
qed

text \<open>
  Claim C8. When the server is bound and \<open>serve_forever\<close> is ended by
  \<open>KeyboardInterrupt\<close>, standard error holds the line
  \<open>Serving '<dir>' at http://localhost:<port> with CORS enabled\<close>, then what was logged
  while serving, then \<open>Shutting down server...\<close>; nothing is written to standard
  output, and the exit status is 0.
\<close>

theorem interrupt_prints_shutdown_to_stderr:
  assumes "parse_args c = Inr a"
    and "0 \<le> port a" "port a \<le> 65535" "os_bind w (port a) = None" "os_listen w (port a) = None"
    and "ending w = KeyboardInterrupt"
  shows "stderr (main e w c) =
           Printed (''Serving '' @ [CHR 0x27] @ dir a @ [CHR 0x27] @ '' at http://localhost:''
                    @ str_int (port a) @ '' with CORS enabled'')
           # map Serve_log (serve_stderr w) @ [Printed ''Shutting down server...'']
         \<and> stdout (main e w c) = []
         \<and> exit_code (main e w c) = 0"
  using main_serving [OF assms(1-5), of e] assms(6)
  by (simp add: serving_message_def)

theorem interrupt_prints_shutdown_to_stderr_witness:
  "parse_args \<lparr>port_arg = Some ''8080'', dir_arg = None\<rparr> = Inr \<lparr>port = 8080, dir = ''public''\<rparr>
   \<and> os_bind sample_world 8080 = None \<and> os_listen sample_world 8080 = None
   \<and> ending sample_world = KeyboardInterrupt
   \<and> stderr (main sample_env sample_world \<lparr>port_arg = Some ''8080'', dir_arg = None\<rparr>) =
       [Printed (''Serving '' @ [CHR 0x27] @ ''public'' @ [CHR 0x27] @ '' at http://localhost:8080 with CORS enabled''),
        Printed ''Shutting down server...'']
   \<and> exit_code (main sample_env sample_world \<lparr>port_arg = Some ''8080'', dir_arg = None\<rparr>) = 0"
proof -
  have p: "parse_args \<lparr>port_arg = Some ''8080'', dir_arg = None\<rparr> = Inr \<lparr>port = 8080, dir = ''public''\<rparr>"
    by (rule parse_args_8080)
  have s: "str_int 8080 = ''8080''"
    by (simp add: str_int_eval)
  have w: "os_bind sample_world 8080 = None" "os_listen sample_world 8080 = None"
    "ending sample_world = KeyboardInterrupt" "serve_stderr sample_world = []"
    by (simp_all add: sample_world_def)
  from interrupt_prints_shutdown_to_stderr [OF p, of sample_world sample_env] w p s
  show ?thesis by simp
qed





end
